theory Spec2Isabelle
  imports Main "HOL-Library.Sublist"
begin

section \<open>canto-curses: screen layout, focus, input pump and text box scrolling\<close>

text \<open>
  A shallow embedding of \<^verbatim>\<open>canto_curses/screen.py\<close> (class \<^verbatim>\<open>Screen\<close>) and
  \<^verbatim>\<open>canto_curses/text.py\<close> (class \<^verbatim>\<open>TextBox\<close>). The program is Python 2: \<^verbatim>\<open>/\<close> on
  integers is floor division, which is \<open>div\<close> on \<open>int\<close>. Every exception the modelled
  code can raise is a value of \<open>error\<close>.
\<close>

datatype error =
    CursesError          \<comment> \<open>\<^verbatim>\<open>curses.newpad\<close> refuses the size of the pad\<close>
  | ValueError           \<comment> \<open>\<^verbatim>\<open>max([])\<close>\<close>
  | AttributeError       \<comment> \<open>an attribute read before it was ever assigned, or on \<^verbatim>\<open>None\<close>\<close>
  | ZeroDivisionError
  | IndexError
  | KeyError

subsection \<open>text.py: TextBox\<close>

text \<open>
  The scroll offset is not a field of the box: it lives in the variable store behind
  \<^verbatim>\<open>callbacks["get_var"]\<close> and \<^verbatim>\<open>callbacks["set_var"]\<close> under the key
  \<^verbatim>\<open>get_opt_name() + "_offset"\<close>, next to \<^verbatim>\<open>needs_redraw\<close>. Both variables are carried
  in the record. \<^verbatim>\<open>self.height\<close> and \<^verbatim>\<open>self.width\<close> are assigned by \<^verbatim>\<open>refresh\<close> only.
\<close>

record textbox =
  tb_pad :: "int \<times> int"            \<comment> \<open>\<^verbatim>\<open>self.pad.getmaxyx()\<close>\<close>
  tb_max_offset :: int
  tb_height :: "int option"
  tb_width :: "int option"
  tb_offset :: int                  \<comment> \<open>the stored variable \<^verbatim>\<open><name>_offset\<close>\<close>
  tb_needs_redraw :: bool


text \<open>
  \<^verbatim>\<open>render\<close> counts one line for a top border, one for every line the theme printer
  emits (the printer is outside this file: its count is the parameter \<open>printed\<close>), one
  for a bottom border, and returns one more.
\<close>

definition render :: "bool \<Rightarrow> bool \<Rightarrow> nat \<Rightarrow> int" where
  "render tb bb printed =
     (let lines = 0;
          lines = (if tb then lines + 1 else lines);
          lines = lines + int printed;
          lines = (if bb then lines + 1 else lines)
      in lines + 1)"

text \<open>
  \<^verbatim>\<open>curses.newpad(nlines, ncols)\<close>: the library makes no pad of fewer than one line or
  column, nor of more than 32767 (its sizes are C shorts), and the Python wrapper
  raises \<^verbatim>\<open>curses.error\<close> then.
\<close>

definition newpad :: "int \<Rightarrow> int \<Rightarrow> error + (int \<times> int)" where
  "newpad nlines ncols =
     (if nlines \<le> 0 \<or> ncols \<le> 0 \<or> 32767 < nlines \<or> 32767 < ncols
      then Inl CursesError else Inr (nlines, ncols))"

definition tb_refresh :: "textbox \<Rightarrow> bool \<Rightarrow> bool \<Rightarrow> nat \<Rightarrow> error + textbox" where
  "tb_refresh s tb bb printed =
     (let (h, w) = tb_pad s;
          lines = render tb bb printed
      in case newpad lines w of
           Inl e \<Rightarrow> Inl e
         | Inr fullpad \<Rightarrow>
             (let mo = max ((lines - 1) - (h - 1)) 0;
                  offset = min (tb_offset s) mo
              in Inr (s\<lparr> tb_height := Some h, tb_width := Some w, tb_max_offset := mo,
                         tb_offset := offset, tb_needs_redraw := True \<rparr>)))"

definition relscroll :: "textbox \<Rightarrow> int \<Rightarrow> textbox" where
  "relscroll s factor =
     (let offset = tb_offset s;
          offset = offset + factor;
          offset = min offset (tb_max_offset s);
          offset = max offset 0
      in s\<lparr> tb_offset := offset, tb_needs_redraw := True \<rparr>)"

definition cmd_scroll_up :: "textbox \<Rightarrow> error + textbox" where
  "cmd_scroll_up s = Inr (relscroll s (- 1))"

definition cmd_scroll_down :: "textbox \<Rightarrow> error + textbox" where
  "cmd_scroll_down s = Inr (relscroll s 1)"

definition cmd_page_up :: "textbox \<Rightarrow> error + textbox" where
  "cmd_page_up s =
     (case tb_height s of
        None \<Rightarrow> Inl AttributeError
      | Some h \<Rightarrow> Inr (relscroll s (- 1 * (h - 1))))"

definition cmd_page_down :: "textbox \<Rightarrow> error + textbox" where
  "cmd_page_down s =
     (case tb_height s of
        None \<Rightarrow> Inl AttributeError
      | Some h \<Rightarrow> Inr (relscroll s (h - 1)))"

text \<open>What can happen to a text box: the four scroll commands and a refresh.\<close>

datatype tb_event = Scroll_up | Scroll_down | Page_up | Page_down | Refresh bool bool nat

fun tb_step :: "textbox \<Rightarrow> tb_event \<Rightarrow> error + textbox" where
  "tb_step s Scroll_up = cmd_scroll_up s"
| "tb_step s Scroll_down = cmd_scroll_down s"
| "tb_step s Page_up = cmd_page_up s"
| "tb_step s Page_down = cmd_page_down s"
| "tb_step s (Refresh tb bb printed) = tb_refresh s tb bb printed"




subsection \<open>screen.py: windows, options and layouts\<close>

text \<open>
  A window object, as far as \<^verbatim>\<open>Screen\<close> uses it: its identity (\<^verbatim>\<open>ci in self.floats\<close>
  compares objects), and the methods \<^verbatim>\<open>get_opt_name\<close>, \<^verbatim>\<open>get_height\<close>, \<^verbatim>\<open>get_width\<close>
  and \<^verbatim>\<open>is_input\<close>.
\<close>

record window =
  wid :: nat
  get_opt_name :: string
  get_height :: "int \<Rightarrow> int"
  get_width :: "int \<Rightarrow> int"
  is_input :: bool

text \<open>
  \<^verbatim>\<open>callbacks["get_opt"]\<close> is given to the screen from outside. It is a parameter here,
  one lookup per option the screen reads, each keyed by the window's option name:
  \<open>opt_maxheight c n\<close> is \<^verbatim>\<open>get_opt(n + ".maxheight")\<close>, \<open>None\<close> being Python's
  \<^verbatim>\<open>None\<close>.
\<close>

record options =
  opt_maxheight :: "string \<Rightarrow> int option"
  opt_maxwidth :: "string \<Rightarrow> int option"
  opt_float :: "string \<Rightarrow> bool"
  opt_align :: "string \<Rightarrow> string"
  opt_border :: "string \<Rightarrow> string"

text \<open>
  A layout is a list whose elements are windows or layouts again
  (\<^verbatim>\<open>hasattr(unit, "__iter__")\<close> tells them apart).
\<close>

datatype layout_unit = Window window | Sublayout "layout_unit list"

datatype orientation = Horizontal | Vertical

datatype dim = Width | Height

text \<open>
  What \<^verbatim>\<open>_subw_init\<close> hands to a window through \<^verbatim>\<open>ci.init(pad, callbacks)\<close>: the pad
  (kept by the window as \<^verbatim>\<open>self.pad\<close>; only its \<^verbatim>\<open>getmaxyx()\<close> matters here), the
  screen rectangle captured by the refresh callback, and the tuple the border callback
  returns, in its order (top, left, bottom, right). The border callback raises
  \<^verbatim>\<open>NameError\<close> when the border option is none of the three modes: that is \<open>None\<close>.
\<close>

record placed =
  p_pad :: "int \<times> int"
  p_top :: int
  p_left :: int
  p_bottom :: int
  p_right :: int
  p_border :: "(bool \<times> bool \<times> bool \<times> bool) option"

type_synonym pads = "nat \<Rightarrow> placed option"

text \<open>The fields of \<^verbatim>\<open>Screen\<close> that the modelled methods read or write.\<close>

record screen =
  scr_opts :: options
  scr_height :: int
  scr_width :: int
  scr_floats :: "window list"
  scr_tiles :: "window list"
  scr_focused :: "window option"

text \<open>Python's \<^verbatim>\<open>s.startswith(p)\<close>, \<^verbatim>\<open>s.endswith(p)\<close> and \<^verbatim>\<open>p in s\<close> on strings.\<close>

fun startswith :: "string \<Rightarrow> string \<Rightarrow> bool" where
  "startswith s [] = True"
| "startswith [] (c # p) = False"
| "startswith (x # s) (c # p) = (x = c \<and> startswith s p)"

definition endswith :: "string \<Rightarrow> string \<Rightarrow> bool" where
  "endswith s p = startswith (rev s) (rev p)"

fun contains :: "string \<Rightarrow> string \<Rightarrow> bool" where
  "contains [] p = (p = [])"
| "contains (x # s) p = (startswith (x # s) p \<or> contains s p)"

definition is_float :: "screen \<Rightarrow> window \<Rightarrow> bool" where
  \<comment> \<open>\<^verbatim>\<open>ci in self.floats\<close>\<close>
  "is_float self ci = (wid ci \<in> set (map wid (scr_floats self)))"

subsection \<open>screen.py: sizes\<close>

text \<open>
  \<^verbatim>\<open>if not cfg_height\<close> holds for \<^verbatim>\<open>None\<close> and for \<open>0\<close>: both leave the size
  unbounded by the configuration.
\<close>

definition subw_size_height :: "screen \<Rightarrow> window \<Rightarrow> int \<Rightarrow> int" where
  "subw_size_height self ci height =
     (let optname = get_opt_name ci;
          cfg_height = opt_maxheight (scr_opts self) optname;
          cfg_height = (case cfg_height of
                          None \<Rightarrow> height
                        | Some c \<Rightarrow> if c = 0 then height else c);
          req_height = get_height ci height
      in min height (min cfg_height req_height))"

definition subw_size_width :: "screen \<Rightarrow> window \<Rightarrow> int \<Rightarrow> int" where
  "subw_size_width self ci width =
     (let optname = get_opt_name ci;
          cfg_width = opt_maxwidth (scr_opts self) optname;
          cfg_width = (case cfg_width of
                         None \<Rightarrow> width
                       | Some c \<Rightarrow> if c = 0 then width else c);
          req_width = get_width ci width
      in min width (min cfg_width req_width))"

text \<open>
  \<^verbatim>\<open>_subw_layout_size\<close>: the largest \<^verbatim>\<open>pad.getmaxyx()[idx] - 1\<close> over the layout, a
  sublayout counting with its own largest. An error of an element ends the loop;
  \<^verbatim>\<open>max\<close> of no sizes raises.
\<close>

fun collect :: "(error + 'a) list \<Rightarrow> error + 'a list" where
  "collect [] = Inr []"
| "collect (Inl e # rs) = Inl e"
| "collect (Inr x # rs) = (case collect rs of Inl e \<Rightarrow> Inl e | Inr xs \<Rightarrow> Inr (x # xs))"

fun py_max :: "int list \<Rightarrow> error + int" where
  "py_max [] = Inl ValueError"
| "py_max (x # xs) = Inr (fold max xs x)"

definition pad_extent :: "dim \<Rightarrow> int \<times> int \<Rightarrow> int" where
  \<comment> \<open>\<^verbatim>\<open>pad.getmaxyx()[idx]\<close>, the index 1 for "width" and 0 for "height"\<close>
  "pad_extent d yx = (case d of Width \<Rightarrow> snd yx | Height \<Rightarrow> fst yx)"

fun unit_size :: "pads \<Rightarrow> dim \<Rightarrow> layout_unit \<Rightarrow> error + int" where
  "unit_size st d (Sublayout l) =
     (case collect (map (unit_size st d) l) of Inl e \<Rightarrow> Inl e | Inr sizes \<Rightarrow> py_max sizes)"
| "unit_size st d (Window x) =
     (case st (wid x) of
        None \<Rightarrow> Inl AttributeError
      | Some p \<Rightarrow> Inr (pad_extent d (p_pad p) - 1))"

definition subw_layout_size :: "pads \<Rightarrow> layout_unit list \<Rightarrow> dim \<Rightarrow> error + int" where
  "subw_layout_size st layout d =
     (case collect (map (unit_size st d) layout) of Inl e \<Rightarrow> Inl e | Inr sizes \<Rightarrow> py_max sizes)"

subsection \<open>screen.py: placing one window\<close>

definition border_flags ::
  "screen \<Rightarrow> window \<Rightarrow> int \<Rightarrow> int \<Rightarrow> int \<Rightarrow> int \<Rightarrow> (bool \<times> bool \<times> bool \<times> bool) option" where
  "border_flags self ci top' left bottom right =
     (let border = opt_border (scr_opts self) (get_opt_name ci) in
      if border = ''smart'' then
        (let top_border = (top' \<noteq> 0);
             bottom_border = (bottom \<noteq> scr_height self - 1);
             left_border = (left \<noteq> 0);
             right_border = (right \<noteq> scr_width self - 1)
         in if is_float self ci then
              (let align = opt_align (scr_opts self) (get_opt_name ci);
                   bottom_border = (if contains align ''top'' then True else bottom_border);
                   top_border = (if contains align ''bottom'' then True else top_border)
               in Some (top_border, left_border, bottom_border, right_border))
            else Some (top_border, left_border, bottom_border, right_border))
      else if border = ''full'' then Some (True, True, True, True)
      else if border = ''none'' then Some (False, False, False, False)
      else None)"

definition subw_init ::
  "screen \<Rightarrow> window \<Rightarrow> int \<Rightarrow> int \<Rightarrow> int \<Rightarrow> int \<Rightarrow> pads \<Rightarrow> error + pads" where
  "subw_init self ci top' left height width st =
     (let bottom = top' + (height - 1);
          right = left + (width - 1);
          flags = border_flags self ci top' left bottom right
      in case newpad (height + 1) width of
           Inl e \<Rightarrow> Inl e
         | Inr pad \<Rightarrow>
             Inr (st(wid ci \<mapsto> \<lparr> p_pad = pad, p_top = top', p_left = left,
                                  p_bottom = bottom, p_right = right, p_border = flags \<rparr>)))"

subsection \<open>screen.py: the tiled layout\<close>

text \<open>The first loop of \<^verbatim>\<open>_subw\<close>: the two lists of \<^verbatim>\<open>(i, unit)\<close> pairs.\<close>

fun immediates_from :: "nat \<Rightarrow> layout_unit list \<Rightarrow> (nat \<times> window) list" where
  "immediates_from i [] = []"
| "immediates_from i (Window w # us) = (i, w) # immediates_from (Suc i) us"
| "immediates_from i (Sublayout l # us) = immediates_from (Suc i) us"

fun cmplx_from :: "nat \<Rightarrow> layout_unit list \<Rightarrow> (nat \<times> layout_unit list) list" where
  "cmplx_from i [] = []"
| "cmplx_from i (Window w # us) = cmplx_from (Suc i) us"
| "cmplx_from i (Sublayout l # us) = (i, l) # cmplx_from (Suc i) us"

text \<open>
  The second loop, over the immediates, started with \<^verbatim>\<open>units = len(layout)\<close> and
  \<^verbatim>\<open>used = 0\<close>. It returns the locals \<^verbatim>\<open>sizes\<close>, \<^verbatim>\<open>used\<close> and \<^verbatim>\<open>units\<close>.
\<close>

fun alloc_immediates ::
  "screen \<Rightarrow> orientation \<Rightarrow> int \<Rightarrow> int \<Rightarrow> (nat \<times> window) list \<Rightarrow> int list \<Rightarrow> int \<Rightarrow> int
     \<Rightarrow> error + (int list \<times> int \<times> int)" where
  "alloc_immediates self orientation height width [] sizes used units =
     Inr (sizes, used, units)"
| "alloc_immediates self orientation height width ((i, unit) # rest) sizes used units =
     (if units = 0 then Inl ZeroDivisionError
      else
        (let size = (if orientation = Horizontal
                     then subw_size_width self unit ((width - used) div units)
                     else subw_size_height self unit ((height - used) div units));
             used = used + size
         in if length sizes \<le> i then Inl IndexError
            else alloc_immediates self orientation height width rest
                   (sizes[i := size]) used (units - 1)))"

text \<open>The last loop: every immediate is placed at the sum of the sizes before it.\<close>

fun init_immediates ::
  "screen \<Rightarrow> orientation \<Rightarrow> int \<Rightarrow> int \<Rightarrow> int \<Rightarrow> int \<Rightarrow> (nat \<times> window) list \<Rightarrow> int list
     \<Rightarrow> pads \<Rightarrow> error + pads" where
  "init_immediates self orientation top' left height width [] sizes st = Inr st"
| "init_immediates self orientation top' left height width ((i, ci) # rest) sizes st =
     (let offset = sum_list (take i sizes) in
      if length sizes \<le> i then Inl IndexError
      else
        (case (if orientation = Horizontal
               then subw_init self ci top' (left + offset) height (sizes ! i) st
               else subw_init self ci (top' + offset) left (sizes ! i) width st) of
           Inl e \<Rightarrow> Inl e
         | Inr st' \<Rightarrow>
             init_immediates self orientation top' left height width rest sizes st'))"

text \<open>
  \<^verbatim>\<open>_subw\<close> and its third loop, over the sublayouts, which calls \<^verbatim>\<open>_subw\<close> again with
  the other orientation. \<open>subw\<close> returns the pads as the call leaves them (the Python
  returns its argument \<^verbatim>\<open>layout\<close>, whose windows now hold these pads); \<open>solve_cmplx\<close>
  returns the locals \<^verbatim>\<open>sizes\<close>, \<^verbatim>\<open>used\<close>, \<^verbatim>\<open>units\<close> and the pads.
\<close>

function subw ::
  "screen \<Rightarrow> layout_unit list \<Rightarrow> int \<Rightarrow> int \<Rightarrow> int \<Rightarrow> int \<Rightarrow> orientation \<Rightarrow> pads
     \<Rightarrow> error + pads"
and solve_cmplx ::
  "screen \<Rightarrow> orientation \<Rightarrow> int \<Rightarrow> int \<Rightarrow> int \<Rightarrow> int \<Rightarrow> (nat \<times> layout_unit list) list
     \<Rightarrow> int list \<Rightarrow> int \<Rightarrow> int \<Rightarrow> pads \<Rightarrow> error + (int list \<times> int \<times> int \<times> pads)"
where
  "subw self layout top' left height width orientation st =
     (case alloc_immediates self orientation height width (immediates_from 0 layout)
             (replicate (length layout) 0) 0 (int (length layout)) of
        Inl e \<Rightarrow> Inl e
      | Inr (sizes, used, units) \<Rightarrow>
          (case solve_cmplx self orientation top' left height width (cmplx_from 0 layout)
                  sizes used (int (length (cmplx_from 0 layout))) st of
             Inl e \<Rightarrow> Inl e
           | Inr (sizes', used', units', st') \<Rightarrow>
               init_immediates self orientation top' left height width
                 (immediates_from 0 layout) sizes' st'))"
| "solve_cmplx self orientation top' left height width [] sizes used units st =
     Inr (sizes, used, units, st)"
| "solve_cmplx self orientation top' left height width ((i, unit) # rest) sizes used units st =
     (let offset = sum_list (take i sizes) in
      if units = 0 then Inl ZeroDivisionError
      else if orientation = Horizontal then
        (let available = (width - used) div units in
         case subw self unit top' (left + offset) height available Vertical st of
           Inl e \<Rightarrow> Inl e
         | Inr st' \<Rightarrow>
             (case subw_layout_size st' unit Width of
                Inl e \<Rightarrow> Inl e
              | Inr s \<Rightarrow>
                  if length sizes \<le> i then Inl IndexError
                  else solve_cmplx self orientation top' left height width rest
                         (sizes[i := s]) (used + s) (units - 1) st'))
      else
        (let available = (height - used) div units in
         case subw self unit (top' + offset) left available width Horizontal st of
           Inl e \<Rightarrow> Inl e
         | Inr st' \<Rightarrow>
             (case subw_layout_size st' unit Height of
                Inl e \<Rightarrow> Inl e
              | Inr s \<Rightarrow>
                  if length sizes \<le> i then Inl IndexError
                  else solve_cmplx self orientation top' left height width rest
                         (sizes[i := s]) (used + s) (units - 1) st')))"
  by pat_completeness auto
termination
proof (relation "measure (\<lambda>a. case a of
          Inl (self, layout, r) \<Rightarrow> 2 * size_list size layout + 1
        | Inr (self, orientation, top', left, height, width, cm, r) \<Rightarrow>
            2 * size_list (\<lambda>(i, u). Suc (size_list size u)) cm)")
  show "wf (measure (\<lambda>a. case a of
          Inl (self, layout, r) \<Rightarrow> 2 * size_list size layout + 1
        | Inr (self, orientation, top', left, height, width, cm, r) \<Rightarrow>
            2 * size_list (\<lambda>(i, u). Suc (size_list size u)) cm))"
    by simp
next
  fix layout :: "layout_unit list"
  have "size_list (\<lambda>(i, u). Suc (size_list size u)) (cmplx_from k layout)
          \<le> size_list size layout" for k
    by (induction k layout rule: cmplx_from.induct) auto
  then show "\<And>self top' left height width orientation st x2 x y xa ya.
       (Inr (self, orientation, top', left, height, width, cmplx_from 0 layout, x, xa,
             int (length (cmplx_from 0 layout)), st),
        Inl (self, layout, top', left, height, width, orientation, st))
       \<in> measure (\<lambda>a. case a of
          Inl (self, layout, r) \<Rightarrow> 2 * size_list size layout + 1
        | Inr (self, orientation, top', left, height, width, cm, r) \<Rightarrow>
            2 * size_list (\<lambda>(i, u). Suc (size_list size u)) cm)"
    by (simp add: le_imp_less_Suc)
qed auto

text \<open>
  The value of the local \<^verbatim>\<open>sizes\<close> (and the pads) when \<^verbatim>\<open>_subw\<close> enters its last loop.
\<close>

definition subw_sizes ::
  "screen \<Rightarrow> layout_unit list \<Rightarrow> int \<Rightarrow> int \<Rightarrow> int \<Rightarrow> int \<Rightarrow> orientation \<Rightarrow> pads
     \<Rightarrow> error + (int list \<times> pads)" where
  "subw_sizes self layout top' left height width orientation st =
     (case alloc_immediates self orientation height width (immediates_from 0 layout)
             (replicate (length layout) 0) 0 (int (length layout)) of
        Inl e \<Rightarrow> Inl e
      | Inr (sizes, used, units) \<Rightarrow>
          (case solve_cmplx self orientation top' left height width (cmplx_from 0 layout)
                  sizes used (int (length (cmplx_from 0 layout))) st of
             Inl e \<Rightarrow> Inl e
           | Inr (sizes', used', units', st') \<Rightarrow> Inr (sizes', st')))"

subsection \<open>screen.py: building the layout\<close>

text \<open>
  \<^verbatim>\<open>fill_layout\<close>: \<^verbatim>\<open>hstack\<close> is the windows themselves, \<^verbatim>\<open>vstack\<close> the windows in
  one sublayout; any other layout name sorts the windows into the dictionary
  \<^verbatim>\<open>aligns\<close> by their \<^verbatim>\<open>align\<close> option, a window named \<^verbatim>\<open>taglist\<close> two levels deeper, and
  an alignment that is no key of the dictionary raises. (The assignment to
  \<^verbatim>\<open>self.input_box\<close> is modelled with the input thread.)
\<close>

record aligns =
  al_top :: "layout_unit list"
  al_bottom :: "layout_unit list"
  al_left :: "layout_unit list"
  al_right :: "layout_unit list"
  al_neutral :: "layout_unit list"

definition aligns_append :: "aligns \<Rightarrow> string \<Rightarrow> layout_unit \<Rightarrow> error + aligns" where
  \<comment> \<open>\<^verbatim>\<open>aligns[align].append(u)\<close>\<close>
  "aligns_append a align u =
     (if align = ''top'' then Inr (a\<lparr> al_top := al_top a @ [u] \<rparr>)
      else if align = ''bottom'' then Inr (a\<lparr> al_bottom := al_bottom a @ [u] \<rparr>)
      else if align = ''left'' then Inr (a\<lparr> al_left := al_left a @ [u] \<rparr>)
      else if align = ''right'' then Inr (a\<lparr> al_right := al_right a @ [u] \<rparr>)
      else if align = ''neutral'' then Inr (a\<lparr> al_neutral := al_neutral a @ [u] \<rparr>)
      else Inl KeyError)"

fun separate_by_alignment :: "screen \<Rightarrow> window list \<Rightarrow> aligns \<Rightarrow> error + aligns" where
  "separate_by_alignment self [] a = Inr a"
| "separate_by_alignment self (w # ws) a =
     (let align = opt_align (scr_opts self) (get_opt_name w) in
      case (if get_opt_name w = ''taglist''
            then aligns_append a align (Sublayout [Sublayout [Window w]])
            else aligns_append a align (Window w)) of
        Inl e \<Rightarrow> Inl e
      | Inr a' \<Rightarrow> separate_by_alignment self ws a')"

definition fill_layout :: "screen \<Rightarrow> string \<Rightarrow> window list \<Rightarrow> error + layout_unit list" where
  "fill_layout self layout windows =
     (if layout = ''hstack'' then Inr (map Window windows)
      else if layout = ''vstack'' then Inr [Sublayout (map Window windows)]
      else
        (case separate_by_alignment self windows
                \<lparr> al_top = [], al_bottom = [], al_left = [], al_right = [], al_neutral = [] \<rparr> of
           Inl e \<Rightarrow> Inl e
         | Inr a \<Rightarrow>
             (let horizontal = al_left a @ al_neutral a @ al_right a
              in Inr (al_top a @ [Sublayout horizontal] @ al_bottom a))))"

subsection \<open>screen.py: floating windows\<close>

text \<open>The loop over \<^verbatim>\<open>self.floats\<close> in \<^verbatim>\<open>subwindows\<close>.\<close>

fun init_floats :: "screen \<Rightarrow> window list \<Rightarrow> pads \<Rightarrow> error + pads" where
  "init_floats self [] st = Inr st"
| "init_floats self (f # fs) st =
     (let align = opt_align (scr_opts self) (get_opt_name f);
          height = subw_size_height self f (scr_height self);
          width = subw_size_width self f (scr_width self);
          top' = 0;
          top' = (if startswith align ''bottom'' then scr_height self - height else top');
          left = 0;
          left = (if endswith align ''right'' then scr_width self - width else left)
      in case subw_init self f top' left height width st of
           Inl e \<Rightarrow> Inl e
         | Inr st' \<Rightarrow> init_floats self fs st')"

subsection \<open>screen.py: focus and dispatch\<close>

text \<open>
  Python's \<^verbatim>\<open>xs[i]\<close>: a negative index counts from the end, an index outside
  \<open>[-len, len)\<close> raises.
\<close>

definition py_index :: "'a list \<Rightarrow> int \<Rightarrow> error + 'a" where
  "py_index xs i =
     (let n = int (length xs) in
      if 0 \<le> i \<and> i < n then Inr (xs ! nat i)
      else if - n \<le> i \<and> i < 0 then Inr (xs ! nat (n + i))
      else Inl IndexError)"

datatype log_line = Focusing_window int nat | Couldnt_find_window int

definition focus :: "screen \<Rightarrow> int \<Rightarrow> error + (screen \<times> log_line)" where
  "focus self idx =
     (let focus_order = scr_tiles self @ scr_floats self;
          focus_order = rev focus_order;
          l = int (length focus_order)
      in if - 1 * l < idx \<and> idx < l then
           (case py_index focus_order idx of
              Inl e \<Rightarrow> Inl e
            | Inr w \<Rightarrow> Inr (self\<lparr> scr_focused := Some w \<rparr>, Focusing_window idx (wid w)))
         else Inr (self, Couldnt_find_window idx))"

text \<open>
  \<^verbatim>\<open>CommandHandler\<close> and the windows' own \<^verbatim>\<open>command\<close> and \<^verbatim>\<open>key\<close> are outside this
  file: \<open>handler\<close> is what \<^verbatim>\<open>CommandHandler.command(self, cmd)\<close> (or \<^verbatim>\<open>.key\<close>) returns
  and \<open>wkey\<close> what a window's \<^verbatim>\<open>key\<close> returns, where \<open>None\<close> stands for any value
  Python takes as false. The model records who was offered the command, in order.
\<close>

datatype receiver = Screen_handler | Focused_window nat

definition command :: "('c \<Rightarrow> bool) \<Rightarrow> screen \<Rightarrow> 'c \<Rightarrow> receiver list" where
  "command handler self cmd =
     (if \<not> handler cmd then
        (case scr_focused self of
           Some f \<Rightarrow> [Screen_handler, Focused_window (wid f)]
         | None \<Rightarrow> [Screen_handler])
      else [Screen_handler])"

definition key ::
  "('k \<Rightarrow> 'r option) \<Rightarrow> (window \<Rightarrow> 'k \<Rightarrow> 'r option) \<Rightarrow> screen \<Rightarrow> 'k
     \<Rightarrow> receiver list \<times> 'r option" where
  "key handler wkey self k =
     (let r = handler k in
      if r \<noteq> None then ([Screen_handler], r)
      else
        (case scr_focused self of
           Some f \<Rightarrow> ([Screen_handler, Focused_window (wid f)], wkey f k)
         | None \<Rightarrow> ([Screen_handler], None)))"

subsection \<open>screen.py: the input thread and the input callback\<close>

text \<open>
  The fields the input thread and \<^verbatim>\<open>input_callback\<close> share. \<open>input_done\<close> is the
  flag of the \<^verbatim>\<open>Event\<close>, \<open>needs_redraw\<close> the variable set through
  \<^verbatim>\<open>callbacks["set_var"]\<close>, \<open>cursor\<close> the last argument of \<^verbatim>\<open>curs_set\<close>.
  The input box is a window class outside this file; its four methods are the
  parameter \<open>box_ops\<close>.
\<close>

record 'b pump =
  sub_edit :: bool
  input_done :: bool
  needs_redraw :: bool
  user_queue :: "(string \<times> int) list"
  input_box :: "'b option"
  cursor :: int

record 'b box_ops =
  box_edit :: "'b \<Rightarrow> string \<Rightarrow> 'b"
  box_addkey :: "'b \<Rightarrow> int \<Rightarrow> int \<times> 'b"
  box_result :: "'b \<Rightarrow> string"
  box_reset :: "'b \<Rightarrow> 'b"

text \<open>
  One turn of the loop of \<^verbatim>\<open>input_thread\<close>, for the value \<open>r\<close> that \<^verbatim>\<open>getch\<close> returned.
  With \<open>r = -1\<close> the thread only releases the lock, sleeps and takes the lock again.
\<close>

definition input_turn :: "'b box_ops \<Rightarrow> 'b pump \<Rightarrow> int \<Rightarrow> error + 'b pump" where
  "input_turn ops s r =
     (if r = - 1 then Inr s
      else if sub_edit s then
        (case input_box s of
           None \<Rightarrow> Inl AttributeError
         | Some b \<Rightarrow>
             (let (rc, b') = box_addkey ops b r;
                  s = s\<lparr> input_box := Some b' \<rparr>
              in if rc = 0
                 then Inr (s\<lparr> sub_edit := False, input_done := True, needs_redraw := True \<rparr>)
                 else Inr s))
      else Inr (s\<lparr> user_queue := user_queue s @ [(''KEY'', r)] \<rparr>))"

fun input_turns :: "'b box_ops \<Rightarrow> 'b pump \<Rightarrow> int list \<Rightarrow> error + 'b pump" where
  "input_turns ops s [] = Inr s"
| "input_turns ops s (r # rs) =
     (case input_turn ops s r of Inl e \<Rightarrow> Inl e | Inr s' \<Rightarrow> input_turns ops s' rs)"

text \<open>
  \<^verbatim>\<open>input_callback\<close> up to \<^verbatim>\<open>self.input_done.wait()\<close>, and from there on. The second
  half runs only once the event is set: \<open>None\<close> is the caller still waiting.
\<close>

definition input_callback_setup :: "'b box_ops \<Rightarrow> 'b pump \<Rightarrow> string \<Rightarrow> error + 'b pump" where
  "input_callback_setup ops s prompt =
     (let s = s\<lparr> cursor := 1 \<rparr>;
          s = s\<lparr> input_done := False \<rparr>
      in case input_box s of
           None \<Rightarrow> Inl AttributeError
         | Some b \<Rightarrow> Inr (s\<lparr> input_box := Some (box_edit ops b prompt), sub_edit := True \<rparr>))"

definition input_callback_return ::
  "'b box_ops \<Rightarrow> 'b pump \<Rightarrow> (error + (string \<times> 'b pump)) option" where
  "input_callback_return ops s =
     (if \<not> input_done s then None
      else
        (case input_box s of
           None \<Rightarrow> Some (Inl AttributeError)
         | Some b \<Rightarrow>
             (let r = box_result ops b;
                  s = s\<lparr> input_box := Some (box_reset ops b) \<rparr>;
                  s = s\<lparr> cursor := 0 \<rparr>
              in Some (Inr (r, s)))))"

text \<open>
  The whole exchange: the caller sets the capture up and waits, the input thread takes
  the keys \<open>rs\<close>, the caller returns.
\<close>

definition input_callback ::
  "'b box_ops \<Rightarrow> 'b pump \<Rightarrow> string \<Rightarrow> int list \<Rightarrow> (error + (string \<times> 'b pump)) option" where
  "input_callback ops s prompt rs =
     (case input_callback_setup ops s prompt of
        Inl e \<Rightarrow> Some (Inl e)
      | Inr s1 \<Rightarrow>
          (case input_turns ops s1 rs of
             Inl e \<Rightarrow> Some (Inl e)
           | Inr s2 \<Rightarrow> input_callback_return ops s2))"

text \<open>
  Modelled from the spec: the input box (\<^verbatim>\<open>input.InputBox\<close>, file \<^verbatim>\<open>input.py\<close>) is
  not among the sources. The spec describes an edit capture with a prompt and a
  buffer, fed raw keys one at a time, that signals "more keys needed" (\<open>1\<close>) or
  "done" (\<open>0\<close>) and whose final content, which may be empty, is what the caller
  receives. The key that ends the edit is the parameter \<open>done_key\<close>; every other key
  is appended to the buffer as its character.
\<close>

record inputbox =
  ib_prompt :: string
  ib_result :: string

definition spec_box_ops :: "int \<Rightarrow> inputbox box_ops" where
  "spec_box_ops done_key =
     \<lparr> box_edit = (\<lambda>b prompt. \<lparr> ib_prompt = prompt, ib_result = [] \<rparr>),
       box_addkey = (\<lambda>b k. if k = done_key then (0, b)
                            else (1, b\<lparr> ib_result := ib_result b @ [char_of k] \<rparr>)),
       box_result = ib_result,
       box_reset = (\<lambda>b. \<lparr> ib_prompt = [], ib_result = [] \<rparr>) \<rparr>"

subsection \<open>Vocabulary of the properties\<close>

text \<open>
  The extent along the axis a layout is partitioned on, and a window's configured
  maximum and requested size on that axis. A configured maximum counts as set when the
  option is neither \<^verbatim>\<open>None\<close> nor \<open>0\<close>.
\<close>

definition extent_of :: "orientation \<Rightarrow> int \<Rightarrow> int \<Rightarrow> int" where
  "extent_of orientation height width = (if orientation = Horizontal then width else height)"

definition configured_max :: "screen \<Rightarrow> orientation \<Rightarrow> window \<Rightarrow> int option" where
  "configured_max self orientation w =
     (case (if orientation = Horizontal
            then opt_maxwidth (scr_opts self) (get_opt_name w)
            else opt_maxheight (scr_opts self) (get_opt_name w)) of
        None \<Rightarrow> None
      | Some c \<Rightarrow> if c = 0 then None else Some c)"

definition requested :: "orientation \<Rightarrow> window \<Rightarrow> int \<Rightarrow> int" where
  "requested orientation w avail =
     (if orientation = Horizontal then get_width w avail else get_height w avail)"

definition min3 :: "int \<Rightarrow> int option \<Rightarrow> int \<Rightarrow> int" where
  \<comment> \<open>\<open>min(available, configured max if set, requested)\<close>\<close>
  "min3 avail cfg req = (case cfg of None \<Rightarrow> min avail req | Some c \<Rightarrow> min avail (min c req))"






text \<open>An unconstrained window: it asks for whatever it is offered.\<close>

definition plain_window :: "nat \<Rightarrow> string \<Rightarrow> window" where
  "plain_window n name =
     \<lparr> wid = n, get_opt_name = name, get_height = (\<lambda>h. h), get_width = (\<lambda>w. w),
       is_input = False \<rparr>"

definition no_options :: options where
  "no_options =
     \<lparr> opt_maxheight = (\<lambda>n. None), opt_maxwidth = (\<lambda>n. None), opt_float = (\<lambda>n. False),
       opt_align = (\<lambda>n. ''neutral''), opt_border = (\<lambda>n. ''smart'') \<rparr>"

definition plain_screen :: "int \<Rightarrow> int \<Rightarrow> screen" where
  "plain_screen h w =
     \<lparr> scr_opts = no_options, scr_height = h, scr_width = w, scr_floats = [],
       scr_tiles = [], scr_focused = None \<rparr>"

section \<open>Properties\<close>

subsection \<open>TextBox scrolling\<close>


lemma relscroll_max_offset [simp]: "tb_max_offset (relscroll s f) = tb_max_offset s"
  by (simp add: relscroll_def Let_def)

lemma tb_step_max_offset_nonneg:
  "0 \<le> tb_max_offset s \<Longrightarrow> tb_step s e = Inr s' \<Longrightarrow> 0 \<le> tb_max_offset s'"
  by (cases e)
     (auto simp: cmd_scroll_up_def cmd_scroll_down_def cmd_page_up_def cmd_page_down_def
        tb_refresh_def Let_def split: option.splits sum.splits prod.splits)











subsection \<open>The loop over the immediates\<close>

lemma size_is_min3:
  "(if orientation = Horizontal then subw_size_width self u a else subw_size_height self u a)
     = min3 a (configured_max self orientation u) (requested orientation u a)"
  by (auto simp: subw_size_width_def subw_size_height_def min3_def configured_max_def
        requested_def Let_def split: option.splits)

lemma alloc_immediates_spec:
  assumes "distinct (map fst imms)" and "\<forall>i\<in>set (map fst imms). i < length sizes"
    and "int (length imms) \<le> units"
  shows "\<exists>sizes' used'.
      alloc_immediates self orientation height width imms sizes used units
        = Inr (sizes', used', units - int (length imms))
      \<and> length sizes' = length sizes
      \<and> (\<forall>j. j \<notin> set (map fst imms) \<longrightarrow> sizes' ! j = sizes ! j)
      \<and> used' = used + sum_list (map (\<lambda>iw. sizes' ! fst iw) imms)
      \<and> (\<forall>k<length imms.
            sizes' ! fst (imms ! k) =
              (let avail = (extent_of orientation height width
                             - (used + sum_list (take k (map (\<lambda>iw. sizes' ! fst iw) imms))))
                           div (units - int k)
               in min3 avail (configured_max self orientation (snd (imms ! k)))
                    (requested orientation (snd (imms ! k)) avail)))"
  using assms
proof (induction imms arbitrary: sizes used units)
  case Nil
  then show ?case by simp
next
  case (Cons iu rest)
  obtain i u where iu: "iu = (i, u)" by (cases iu)
  define avail where "avail = (extent_of orientation height width - used) div units"
  define size where "size = min3 avail (configured_max self orientation u) (requested orientation u avail)"
  have units: "units \<noteq> 0" and i_lt: "i < length sizes" and i_notin: "i \<notin> set (map fst rest)"
    using Cons.prems by (auto simp: iu)
  have sz: "(if orientation = Horizontal
             then subw_size_width self u ((width - used) div units)
             else subw_size_height self u ((height - used) div units)) = size"
  proof (cases "orientation = Horizontal")
    case True
    then show ?thesis
      using size_is_min3 [of orientation self u "(width - used) div units"]
      by (simp add: size_def avail_def extent_of_def)
  next
    case False
    then show ?thesis
      using size_is_min3 [of orientation self u "(height - used) div units"]
      by (simp add: size_def avail_def extent_of_def)
  qed
  have step: "alloc_immediates self orientation height width (iu # rest) sizes used units
      = alloc_immediates self orientation height width rest (sizes[i := size]) (used + size) (units - 1)"
    using units i_lt sz by (simp add: iu Let_def)
  have "distinct (map fst rest)" and "\<forall>j\<in>set (map fst rest). j < length (sizes[i := size])"
    and "int (length rest) \<le> units - 1"
    using Cons.prems by (auto simp: iu)
  from Cons.IH [OF this, of "used + size"]
  obtain sizes' used' where
    run: "alloc_immediates self orientation height width rest (sizes[i := size]) (used + size) (units - 1)
            = Inr (sizes', used', units - 1 - int (length rest))"
    and len: "length sizes' = length (sizes[i := size])"
    and keep: "\<forall>j. j \<notin> set (map fst rest) \<longrightarrow> sizes' ! j = sizes[i := size] ! j"
    and used': "used' = used + size + sum_list (map (\<lambda>iw. sizes' ! fst iw) rest)"
    and each: "\<forall>k<length rest.
            sizes' ! fst (rest ! k) =
              (let avail = (extent_of orientation height width
                             - (used + size + sum_list (take k (map (\<lambda>iw. sizes' ! fst iw) rest))))
                           div (units - 1 - int k)
               in min3 avail (configured_max self orientation (snd (rest ! k)))
                    (requested orientation (snd (rest ! k)) avail))"
    by blast
  have at_i: "sizes' ! i = size"
    using keep i_notin i_lt by simp
  have "\<forall>k<length (iu # rest).
            sizes' ! fst ((iu # rest) ! k) =
              (let avail = (extent_of orientation height width
                             - (used + sum_list (take k (map (\<lambda>iw. sizes' ! fst iw) (iu # rest)))))
                           div (units - int k)
               in min3 avail (configured_max self orientation (snd ((iu # rest) ! k)))
                    (requested orientation (snd ((iu # rest) ! k)) avail))"
  proof (intro allI impI)
    fix k assume k: "k < length (iu # rest)"
    show "sizes' ! fst ((iu # rest) ! k) =
              (let avail = (extent_of orientation height width
                             - (used + sum_list (take k (map (\<lambda>iw. sizes' ! fst iw) (iu # rest)))))
                           div (units - int k)
               in min3 avail (configured_max self orientation (snd ((iu # rest) ! k)))
                    (requested orientation (snd ((iu # rest) ! k)) avail))"
    proof (cases k)
      case 0
      then show ?thesis using at_i by (simp add: iu size_def avail_def Let_def)
    next
      case (Suc k')
      then have "k' < length rest" using k by simp
      from each [rule_format, OF this] show ?thesis
        using at_i by (simp add: Suc iu Let_def algebra_simps)
    qed
  qed
  moreover have "\<forall>j. j \<notin> set (map fst (iu # rest)) \<longrightarrow> sizes' ! j = sizes ! j"
    using keep by (auto simp: iu)
  moreover have "used' = used + sum_list (map (\<lambda>iw. sizes' ! fst iw) (iu # rest))"
    using used' at_i by (simp add: iu)
  moreover have "alloc_immediates self orientation height width (iu # rest) sizes used units
        = Inr (sizes', used', units - int (length (iu # rest)))"
    using step run by (simp add: algebra_simps)
  moreover have "length sizes' = length sizes" using len by simp
  ultimately show ?case by blast
qed

lemma immediates_from_fst:
  "set (map fst (immediates_from i layout)) \<subseteq> {i ..< i + length layout}"
  by (induction i layout rule: immediates_from.induct) auto

lemma immediates_from_distinct: "distinct (map fst (immediates_from i layout))"
proof (induction i layout rule: immediates_from.induct)
  case (2 i w us)
  then show ?case using immediates_from_fst [of "Suc i" us] by auto
qed auto

lemma immediates_from_length: "length (immediates_from i layout) \<le> length layout"
  by (induction i layout rule: immediates_from.induct) auto


declare subw.simps [simp del]

lemma three_tiles_sizes:
  "subw_sizes (plain_screen 30 80)
       [Window (plain_window 1 ''a''), Window (plain_window 2 ''b''), Window (plain_window 3 ''c'')]
       0 0 30 80 Vertical Map.empty = Inr ([10, 10, 10], Map.empty)"
  by (simp add: subw_sizes_def plain_screen_def plain_window_def no_options_def
      subw_size_height_def Let_def)

lemma three_tiles_placed:
  "\<exists>st. subw (plain_screen 30 80)
       [Window (plain_window 1 ''a''), Window (plain_window 2 ''b''), Window (plain_window 3 ''c'')]
       0 0 30 80 Vertical Map.empty = Inr st
     \<and> map (map_option (\<lambda>p. (p_top p, fst (p_pad p) - 1)) \<circ> st) [1, 2, 3]
         = [Some (0, 10), Some (10, 10), Some (20, 10)]"
  by (simp add: subw.simps plain_screen_def plain_window_def no_options_def
      subw_size_height_def subw_init_def newpad_def border_flags_def is_float_def Let_def)

text \<open>
  Claim C1. In the loop over the immediates, as \<^verbatim>\<open>_subw\<close> starts it (\<^verbatim>\<open>used = 0\<close>,
  \<^verbatim>\<open>units = len(layout)\<close>), the \<open>k\<close>-th immediate is allocated
  \<open>min(avail, configured max if set, requested size)\<close>, where \<open>avail\<close> is the extent
  less the sizes of the immediates before it, divided by the number of units less \<open>k\<close>;
  the loop never fails. Three unconstrained tiles stacked in height 30 get the sizes
  \<open>[10, 10, 10]\<close> and are placed at the offsets 0, 10 and 20.
\<close>

theorem immediates_share_remaining_space:
  "(\<exists>sizes used units.
      alloc_immediates self orientation height width (immediates_from 0 layout)
          (replicate (length layout) 0) 0 (int (length layout)) = Inr (sizes, used, units)
      \<and> (\<forall>k<length (immediates_from 0 layout).
            sizes ! fst (immediates_from 0 layout ! k) =
              (let avail = (extent_of orientation height width
                             - sum_list (take k (map (\<lambda>iw. sizes ! fst iw) (immediates_from 0 layout))))
                           div (int (length layout) - int k)
               in min3 avail (configured_max self orientation (snd (immediates_from 0 layout ! k)))
                    (requested orientation (snd (immediates_from 0 layout ! k)) avail))))
   \<and> subw_sizes (plain_screen 30 80)
       [Window (plain_window 1 ''a''), Window (plain_window 2 ''b''), Window (plain_window 3 ''c'')]
       0 0 30 80 Vertical Map.empty = Inr ([10, 10, 10], Map.empty)
   \<and> (\<exists>st. subw (plain_screen 30 80)
       [Window (plain_window 1 ''a''), Window (plain_window 2 ''b''), Window (plain_window 3 ''c'')]
       0 0 30 80 Vertical Map.empty = Inr st
     \<and> map (map_option (\<lambda>p. (p_top p, fst (p_pad p) - 1)) \<circ> st) [1, 2, 3]
         = [Some (0, 10), Some (10, 10), Some (20, 10)])"
proof -
  have d: "distinct (map fst (immediates_from 0 layout))"
    by (rule immediates_from_distinct)
  have r: "\<forall>i\<in>set (map fst (immediates_from 0 layout)). i < length (replicate (length layout) (0::int))"
    using immediates_from_fst [of 0 layout] by auto
  have l: "int (length (immediates_from 0 layout)) \<le> int (length layout)"
    using immediates_from_length [of 0 layout] by simp
  from alloc_immediates_spec [OF d r l, of self orientation height width 0]
  have "\<exists>sizes used units.
      alloc_immediates self orientation height width (immediates_from 0 layout)
          (replicate (length layout) 0) 0 (int (length layout)) = Inr (sizes, used, units)
      \<and> (\<forall>k<length (immediates_from 0 layout).
            sizes ! fst (immediates_from 0 layout ! k) =
              (let avail = (extent_of orientation height width
                             - sum_list (take k (map (\<lambda>iw. sizes ! fst iw) (immediates_from 0 layout))))
                           div (int (length layout) - int k)
               in min3 avail (configured_max self orientation (snd (immediates_from 0 layout ! k)))
                    (requested orientation (snd (immediates_from 0 layout ! k)) avail)))"
    by auto
  then show ?thesis using three_tiles_sizes three_tiles_placed by blast
qed

theorem immediates_share_remaining_space_witness:
  "alloc_immediates (plain_screen 30 80) Vertical 30 80
      (immediates_from 0 [Window (plain_window 1 ''a''), Sublayout [], Window (plain_window 3 ''c'')])
      [0, 0, 0] 0 3 = Inr ([10, 0, 10], 20, 1)
   \<and> (1::nat) < length (immediates_from 0
          [Window (plain_window 1 ''a''), Sublayout [], Window (plain_window 3 ''c'')])
   \<and> [10, 0, 10 :: int] ! fst (immediates_from 0
          [Window (plain_window 1 ''a''), Sublayout [], Window (plain_window 3 ''c'')] ! 1)
       = min3 ((30 - 10) div (3 - 1)) None ((30 - 10) div (3 - 1))"
proof -
  note general = immediates_share_remaining_space
    [of "plain_screen 30 80" Vertical 30 80
        "[Window (plain_window 1 ''a''), Sublayout [], Window (plain_window 3 ''c'')]"]
  have a: "alloc_immediates (plain_screen 30 80) Vertical 30 80
      (immediates_from 0 [Window (plain_window 1 ''a''), Sublayout [], Window (plain_window 3 ''c'')])
      [0, 0, 0] 0 3 = Inr ([10, 0, 10], 20, 1)"
    by (simp add: plain_screen_def plain_window_def no_options_def subw_size_height_def Let_def)
  have b: "(1::nat) < length (immediates_from 0
          [Window (plain_window 1 ''a''), Sublayout [], Window (plain_window 3 ''c'')])"
    by simp
  have c: "[10, 0, 10 :: int] ! fst (immediates_from 0
          [Window (plain_window 1 ''a''), Sublayout [], Window (plain_window 3 ''c'')] ! 1)
       = min3 ((30 - 10) div (3 - 1)) None ((30 - 10) div (3 - 1))"
    by (simp add: min3_def)
  from general a b c show ?thesis by blast
qed

subsection \<open>Placing a window: borders\<close>

lemma startswith_prefix: "startswith s p = prefix p s"
  by (induction s p rule: startswith.induct) auto

lemma endswith_suffix: "endswith s p = suffix p s"
  by (simp add: endswith_def startswith_prefix suffix_to_prefix)

lemma contains_sublist: "contains s p = sublist p s"
  by (induction s) (auto simp: startswith_prefix sublist_Cons_right)

lemma subw_init_placed:
  "subw_init self ci t l h w st = Inr st' \<Longrightarrow>
     1 \<le> h + 1 \<and> 1 \<le> w
     \<and> st' = st(wid ci \<mapsto> \<lparr> p_pad = (h + 1, w), p_top = t, p_left = l,
                    p_bottom = t + (h - 1), p_right = l + (w - 1),
                    p_border = border_flags self ci t l (t + (h - 1)) (l + (w - 1)) \<rparr>)"
  by (auto simp: subw_init_def newpad_def Let_def split: if_splits)

text \<open>
  Claim C5. Border mode \<open>full\<close> sets all four flags, mode \<open>none\<close> clears them. In mode
  \<open>smart\<close> the flag of an edge is set exactly when the edge is not on the matching
  edge of the screen (row 0, column 0, the last row, the last column), except for a
  floating window: an alignment containing \<open>top\<close> sets the bottom flag and one
  containing \<open>bottom\<close> sets the top flag. These are the flags a placed window's border
  callback returns for its region.
\<close>

theorem border_flags_by_mode:
  "(opt_border (scr_opts self) (get_opt_name ci) = ''full'' \<longrightarrow>
      border_flags self ci t l b r = Some (True, True, True, True))
   \<and> (opt_border (scr_opts self) (get_opt_name ci) = ''none'' \<longrightarrow>
      border_flags self ci t l b r = Some (False, False, False, False))
   \<and> (opt_border (scr_opts self) (get_opt_name ci) = ''smart'' \<longrightarrow>
      border_flags self ci t l b r =
        Some (t \<noteq> 0 \<or> (is_float self ci
                        \<and> contains (opt_align (scr_opts self) (get_opt_name ci)) ''bottom''),
              l \<noteq> 0,
              b \<noteq> scr_height self - 1 \<or> (is_float self ci
                        \<and> contains (opt_align (scr_opts self) (get_opt_name ci)) ''top''),
              r \<noteq> scr_width self - 1))
   \<and> (subw_init self ci t l h w st = Inr st' \<longrightarrow>
        (\<exists>p. st' (wid ci) = Some p \<and> p_top p = t \<and> p_left p = l
           \<and> p_bottom p = t + (h - 1) \<and> p_right p = l + (w - 1)
           \<and> p_border p = border_flags self ci (p_top p) (p_left p) (p_bottom p) (p_right p)))"
proof -
  have full: "opt_border (scr_opts self) (get_opt_name ci) = ''full'' \<longrightarrow>
      border_flags self ci t l b r = Some (True, True, True, True)"
    by (simp add: border_flags_def)
  have none: "opt_border (scr_opts self) (get_opt_name ci) = ''none'' \<longrightarrow>
      border_flags self ci t l b r = Some (False, False, False, False)"
    by (simp add: border_flags_def)
  have smart: "opt_border (scr_opts self) (get_opt_name ci) = ''smart'' \<longrightarrow>
      border_flags self ci t l b r =
        Some (t \<noteq> 0 \<or> (is_float self ci
                        \<and> contains (opt_align (scr_opts self) (get_opt_name ci)) ''bottom''),
              l \<noteq> 0,
              b \<noteq> scr_height self - 1 \<or> (is_float self ci
                        \<and> contains (opt_align (scr_opts self) (get_opt_name ci)) ''top''),
              r \<noteq> scr_width self - 1)"
    by (simp add: border_flags_def Let_def)
  have placed: "subw_init self ci t l h w st = Inr st' \<longrightarrow>
        (\<exists>p. st' (wid ci) = Some p \<and> p_top p = t \<and> p_left p = l
           \<and> p_bottom p = t + (h - 1) \<and> p_right p = l + (w - 1)
           \<and> p_border p = border_flags self ci (p_top p) (p_left p) (p_bottom p) (p_right p))"
    using subw_init_placed [of self ci t l h w st st'] by auto
  from full none smart placed show ?thesis by blast
qed

theorem border_flags_by_mode_witness:
  "border_flags ((plain_screen 24 80)\<lparr> scr_opts := no_options\<lparr> opt_border := (\<lambda>n. ''full'') \<rparr> \<rparr>)
       (plain_window 1 ''w'') 0 0 23 79 = Some (True, True, True, True)
   \<and> border_flags ((plain_screen 24 80)\<lparr> scr_opts := no_options\<lparr> opt_border := (\<lambda>n. ''none'') \<rparr> \<rparr>)
       (plain_window 1 ''w'') 5 5 10 10 = Some (False, False, False, False)
   \<and> border_flags (plain_screen 24 80) (plain_window 1 ''w'') 0 40 23 79
       = Some (False, True, False, False)
   \<and> is_float ((plain_screen 24 80)\<lparr> scr_opts := no_options\<lparr> opt_align := (\<lambda>n. ''topright'') \<rparr>,
                                     scr_floats := [plain_window 1 ''w''] \<rparr>) (plain_window 1 ''w'')
   \<and> contains ''topright'' ''top''
   \<and> (\<exists>st. subw_init ((plain_screen 24 80)\<lparr> scr_opts := no_options\<lparr> opt_align := (\<lambda>n. ''topright'') \<rparr>,
                                     scr_floats := [plain_window 1 ''w''] \<rparr>)
          (plain_window 1 ''w'') 0 60 24 20 Map.empty = Inr st
        \<and> map_option p_border (st 1) = Some (Some (False, True, True, False)))"
proof -
  note full = border_flags_by_mode
    [of "(plain_screen 24 80)\<lparr> scr_opts := no_options\<lparr> opt_border := (\<lambda>n. ''full'') \<rparr> \<rparr>"
        "plain_window 1 ''w''" 0 0 23 79]
  note none = border_flags_by_mode
    [of "(plain_screen 24 80)\<lparr> scr_opts := no_options\<lparr> opt_border := (\<lambda>n. ''none'') \<rparr> \<rparr>"
        "plain_window 1 ''w''" 5 5 10 10]
  note smart = border_flags_by_mode
    [of "(plain_screen 24 80)\<lparr> scr_opts := no_options\<lparr> opt_align := (\<lambda>n. ''topright'') \<rparr>,
                                     scr_floats := [plain_window 1 ''w''] \<rparr>"
        "plain_window 1 ''w''" 0 60 23 79 24 20 Map.empty]
  have a: "border_flags ((plain_screen 24 80)\<lparr> scr_opts := no_options\<lparr> opt_border := (\<lambda>n. ''full'') \<rparr> \<rparr>)
       (plain_window 1 ''w'') 0 0 23 79 = Some (True, True, True, True)"
    using full by (simp add: plain_screen_def no_options_def)
  have b: "border_flags ((plain_screen 24 80)\<lparr> scr_opts := no_options\<lparr> opt_border := (\<lambda>n. ''none'') \<rparr> \<rparr>)
       (plain_window 1 ''w'') 5 5 10 10 = Some (False, False, False, False)"
    using none by (simp add: plain_screen_def no_options_def)
  have c: "border_flags (plain_screen 24 80) (plain_window 1 ''w'') 0 40 23 79
       = Some (False, True, False, False)"
    by (simp add: border_flags_def plain_screen_def no_options_def is_float_def Let_def)
  have d: "is_float ((plain_screen 24 80)\<lparr> scr_opts := no_options\<lparr> opt_align := (\<lambda>n. ''topright'') \<rparr>,
                                     scr_floats := [plain_window 1 ''w''] \<rparr>) (plain_window 1 ''w'')"
    by (simp add: is_float_def plain_screen_def)
  have e: "contains ''topright'' ''top''" by simp
  have f: "\<exists>st. subw_init ((plain_screen 24 80)\<lparr> scr_opts := no_options\<lparr> opt_align := (\<lambda>n. ''topright'') \<rparr>,
                                     scr_floats := [plain_window 1 ''w''] \<rparr>)
          (plain_window 1 ''w'') 0 60 24 20 Map.empty = Inr st
        \<and> map_option p_border (st 1) = Some (Some (False, True, True, False))"
    using smart
    by (simp add: subw_init_def newpad_def border_flags_def is_float_def plain_screen_def
        plain_window_def no_options_def Let_def)
  from a b c d e f show ?thesis by blast
qed

subsection \<open>Floating windows\<close>

lemma init_floats_others:
  "init_floats self fs st = Inr st' \<Longrightarrow> n \<notin> set (map wid fs) \<Longrightarrow> st' n = st n"
proof (induction fs arbitrary: st)
  case Nil
  then show ?case by simp
next
  case (Cons f fs)
  then show ?case
    by (auto simp: Let_def split: sum.splits dest!: subw_init_placed)
qed

lemma float_sizes_min3:
  "subw_size_height self f a = min3 a (configured_max self Vertical f) (requested Vertical f a)"
  "subw_size_width self f a = min3 a (configured_max self Horizontal f) (requested Horizontal f a)"
  using size_is_min3 [of Vertical self f a] size_is_min3 [of Horizontal self f a] by simp_all

lemma init_floats_region:
  assumes "init_floats self fs st = Inr st'" and "distinct (map wid fs)" and "f \<in> set fs"
  shows "\<exists>p. st' (wid f) = Some p
     \<and> p_pad p = (subw_size_height self f (scr_height self) + 1,
                   subw_size_width self f (scr_width self))
     \<and> p_top p = (if startswith (opt_align (scr_opts self) (get_opt_name f)) ''bottom''
                   then scr_height self - subw_size_height self f (scr_height self) else 0)
     \<and> p_left p = (if endswith (opt_align (scr_opts self) (get_opt_name f)) ''right''
                    then scr_width self - subw_size_width self f (scr_width self) else 0)"
  using assms
proof (induction fs arbitrary: st)
  case Nil
  then show ?case by simp
next
  case (Cons g fs)
  from Cons.prems(1) obtain st1 where
    g: "subw_init self g
          (if startswith (opt_align (scr_opts self) (get_opt_name g)) ''bottom''
           then scr_height self - subw_size_height self g (scr_height self) else 0)
          (if endswith (opt_align (scr_opts self) (get_opt_name g)) ''right''
           then scr_width self - subw_size_width self g (scr_width self) else 0)
          (subw_size_height self g (scr_height self))
          (subw_size_width self g (scr_width self)) st = Inr st1"
    and rest: "init_floats self fs st1 = Inr st'"
    by (auto simp: Let_def split: sum.splits)
  show ?case
  proof (cases "f \<in> set fs")
    case True
    then show ?thesis using Cons.IH [OF rest] Cons.prems(2) by simp
  next
    case False
    then have fg: "f = g" using Cons.prems(3) by simp
    have "wid g \<notin> set (map wid fs)" using Cons.prems(2) by simp
    then have "st' (wid g) = st1 (wid g)" using init_floats_others [OF rest] by simp
    then show ?thesis using subw_init_placed [OF g] by (simp add: fg)
  qed
qed

text \<open>
  Claim C2. Every floating window is sized against the whole screen, whatever its
  alignment: its height is \<open>min(screen height, configured max if set, requested)\<close> and
  its width likewise (the pad has one line more than the height). Its top is 0 unless
  the alignment begins with \<open>bottom\<close>, then it is the screen height less its height;
  its left is 0 unless the alignment ends in \<open>right\<close>, then it is the screen width
  less its width. A float aligned \<open>bottomright\<close> on an 80 by 24 screen, with
  configured maxima 10 by 20 and asking for whatever it is offered, gets top 14,
  left 60, height 10 and width 20.
\<close>

theorem floats_sized_against_screen:
  "(init_floats self fs st = Inr st' \<and> distinct (map wid fs) \<and> f \<in> set fs \<longrightarrow>
      (\<exists>p. st' (wid f) = Some p
        \<and> fst (p_pad p) - 1 = min3 (scr_height self) (configured_max self Vertical f)
                                  (get_height f (scr_height self))
        \<and> snd (p_pad p) = min3 (scr_width self) (configured_max self Horizontal f)
                              (get_width f (scr_width self))
        \<and> p_top p = (if startswith (opt_align (scr_opts self) (get_opt_name f)) ''bottom''
                      then scr_height self - (fst (p_pad p) - 1) else 0)
        \<and> p_left p = (if endswith (opt_align (scr_opts self) (get_opt_name f)) ''right''
                       then scr_width self - snd (p_pad p) else 0)))
   \<and> (\<exists>st2. init_floats
          ((plain_screen 24 80)\<lparr> scr_opts := no_options\<lparr> opt_maxheight := (\<lambda>n. Some 10),
               opt_maxwidth := (\<lambda>n. Some 20), opt_float := (\<lambda>n. True),
               opt_align := (\<lambda>n. ''bottomright'') \<rparr>,
             scr_floats := [plain_window 1 ''w''] \<rparr>)
          [plain_window 1 ''w''] Map.empty = Inr st2
        \<and> map_option (\<lambda>p. (p_top p, p_left p, fst (p_pad p) - 1, snd (p_pad p))) (st2 1)
            = Some (14, 60, 10, 20))"
proof -
  have general: "init_floats self fs st = Inr st' \<and> distinct (map wid fs) \<and> f \<in> set fs \<longrightarrow>
      (\<exists>p. st' (wid f) = Some p
        \<and> fst (p_pad p) - 1 = min3 (scr_height self) (configured_max self Vertical f)
                                  (get_height f (scr_height self))
        \<and> snd (p_pad p) = min3 (scr_width self) (configured_max self Horizontal f)
                              (get_width f (scr_width self))
        \<and> p_top p = (if startswith (opt_align (scr_opts self) (get_opt_name f)) ''bottom''
                      then scr_height self - (fst (p_pad p) - 1) else 0)
        \<and> p_left p = (if endswith (opt_align (scr_opts self) (get_opt_name f)) ''right''
                       then scr_width self - snd (p_pad p) else 0))"
  proof
    assume a: "init_floats self fs st = Inr st' \<and> distinct (map wid fs) \<and> f \<in> set fs"
    then obtain p where p: "st' (wid f) = Some p"
      "p_pad p = (subw_size_height self f (scr_height self) + 1,
                   subw_size_width self f (scr_width self))"
      "p_top p = (if startswith (opt_align (scr_opts self) (get_opt_name f)) ''bottom''
                   then scr_height self - subw_size_height self f (scr_height self) else 0)"
      "p_left p = (if endswith (opt_align (scr_opts self) (get_opt_name f)) ''right''
                    then scr_width self - subw_size_width self f (scr_width self) else 0)"
      using init_floats_region [of self fs st st' f] by blast
    show "\<exists>p. st' (wid f) = Some p
        \<and> fst (p_pad p) - 1 = min3 (scr_height self) (configured_max self Vertical f)
                                  (get_height f (scr_height self))
        \<and> snd (p_pad p) = min3 (scr_width self) (configured_max self Horizontal f)
                              (get_width f (scr_width self))
        \<and> p_top p = (if startswith (opt_align (scr_opts self) (get_opt_name f)) ''bottom''
                      then scr_height self - (fst (p_pad p) - 1) else 0)
        \<and> p_left p = (if endswith (opt_align (scr_opts self) (get_opt_name f)) ''right''
                       then scr_width self - snd (p_pad p) else 0)"
      using p by (simp add: float_sizes_min3 requested_def)
  qed
  have scenario: "\<exists>st2. init_floats
          ((plain_screen 24 80)\<lparr> scr_opts := no_options\<lparr> opt_maxheight := (\<lambda>n. Some 10),
               opt_maxwidth := (\<lambda>n. Some 20), opt_float := (\<lambda>n. True),
               opt_align := (\<lambda>n. ''bottomright'') \<rparr>,
             scr_floats := [plain_window 1 ''w''] \<rparr>)
          [plain_window 1 ''w''] Map.empty = Inr st2
        \<and> map_option (\<lambda>p. (p_top p, p_left p, fst (p_pad p) - 1, snd (p_pad p))) (st2 1)
            = Some (14, 60, 10, 20)"
    by (simp add: plain_screen_def plain_window_def no_options_def subw_size_height_def
        subw_size_width_def subw_init_def newpad_def endswith_def Let_def)
  from general scenario show ?thesis by blast
qed

theorem floats_sized_against_screen_witness:
  "(\<exists>st2. init_floats
          ((plain_screen 24 80)\<lparr> scr_opts := no_options\<lparr> opt_maxheight := (\<lambda>n. Some 10),
               opt_maxwidth := (\<lambda>n. Some 20), opt_float := (\<lambda>n. True),
               opt_align := (\<lambda>n. ''bottomright'') \<rparr>,
             scr_floats := [plain_window 1 ''w'', plain_window 2 ''v''] \<rparr>)
          [plain_window 1 ''w'', plain_window 2 ''v''] Map.empty = Inr st2
        \<and> map_option (\<lambda>p. (p_top p, p_left p, fst (p_pad p) - 1, snd (p_pad p))) (st2 1)
            = Some (14, 60, 10, 20))
   \<and> distinct (map wid [plain_window 1 ''w'', plain_window 2 ''v''])
   \<and> plain_window 1 ''w'' \<in> set [plain_window 1 ''w'', plain_window 2 ''v'']"
proof -
  note general = floats_sized_against_screen
    [of "(plain_screen 24 80)\<lparr> scr_opts := no_options\<lparr> opt_maxheight := (\<lambda>n. Some 10),
               opt_maxwidth := (\<lambda>n. Some 20), opt_float := (\<lambda>n. True),
               opt_align := (\<lambda>n. ''bottomright'') \<rparr>,
             scr_floats := [plain_window 1 ''w'', plain_window 2 ''v''] \<rparr>"
        "[plain_window 1 ''w'', plain_window 2 ''v'']" Map.empty _ "plain_window 1 ''w''"]
  have a: "\<exists>st2. init_floats
          ((plain_screen 24 80)\<lparr> scr_opts := no_options\<lparr> opt_maxheight := (\<lambda>n. Some 10),
               opt_maxwidth := (\<lambda>n. Some 20), opt_float := (\<lambda>n. True),
               opt_align := (\<lambda>n. ''bottomright'') \<rparr>,
             scr_floats := [plain_window 1 ''w'', plain_window 2 ''v''] \<rparr>)
          [plain_window 1 ''w'', plain_window 2 ''v''] Map.empty = Inr st2
        \<and> map_option (\<lambda>p. (p_top p, p_left p, fst (p_pad p) - 1, snd (p_pad p))) (st2 1)
            = Some (14, 60, 10, 20)"
    by (simp add: plain_screen_def plain_window_def no_options_def subw_size_height_def
        subw_size_width_def subw_init_def newpad_def endswith_def Let_def)
  have b: "distinct (map wid [plain_window 1 ''w'', plain_window 2 ''v''])"
    by (simp add: plain_window_def)
  have c: "plain_window 1 ''w'' \<in> set [plain_window 1 ''w'', plain_window 2 ''v'']"
    by simp
  from general a b c show ?thesis by blast
qed

subsection \<open>Focus and dispatch\<close>

text \<open>
  Claim C6. With \<open>N\<close> the number of tiles and floats together, \<open>focus i\<close> for
  \<open>-N < i < N\<close> makes the focused window the element at Python index \<open>i\<close> of the
  reversed list of tiles followed by floats (index \<open>i\<close> when \<open>i\<close> is not negative,
  \<open>N + i\<close> otherwise). For any other \<open>i\<close> the screen is returned unchanged, with the
  "couldn't find" log line; \<open>focus\<close> never raises.
\<close>

theorem focus_resolves_signed_index:
  "(- int (length (scr_tiles self @ scr_floats self)) < i
      \<and> i < int (length (scr_tiles self @ scr_floats self)) \<longrightarrow>
      (\<exists>w. w = rev (scr_tiles self @ scr_floats self)
                ! nat (if 0 \<le> i then i else int (length (scr_tiles self @ scr_floats self)) + i)
          \<and> py_index (rev (scr_tiles self @ scr_floats self)) i = Inr w
          \<and> focus self i = Inr (self\<lparr> scr_focused := Some w \<rparr>, Focusing_window i (wid w))))
   \<and> (\<not> (- int (length (scr_tiles self @ scr_floats self)) < i
          \<and> i < int (length (scr_tiles self @ scr_floats self))) \<longrightarrow>
        focus self i = Inr (self, Couldnt_find_window i))
   \<and> (\<exists>r. focus self i = Inr r)"
  by (auto simp: focus_def py_index_def Let_def add.commute)

theorem focus_resolves_signed_index_witness:
  "focus ((plain_screen 24 80)\<lparr> scr_tiles := [plain_window 1 ''a'', plain_window 2 ''b''],
                                scr_floats := [plain_window 3 ''c''] \<rparr>) (- 1)
     = Inr ((plain_screen 24 80)\<lparr> scr_tiles := [plain_window 1 ''a'', plain_window 2 ''b''],
                                   scr_floats := [plain_window 3 ''c''],
                                   scr_focused := Some (plain_window 1 ''a'') \<rparr>,
            Focusing_window (- 1) 1)
   \<and> focus ((plain_screen 24 80)\<lparr> scr_tiles := [plain_window 1 ''a'', plain_window 2 ''b''],
                                  scr_floats := [plain_window 3 ''c''] \<rparr>) 0
     = Inr ((plain_screen 24 80)\<lparr> scr_tiles := [plain_window 1 ''a'', plain_window 2 ''b''],
                                   scr_floats := [plain_window 3 ''c''],
                                   scr_focused := Some (plain_window 3 ''c'') \<rparr>,
            Focusing_window 0 3)
   \<and> focus ((plain_screen 24 80)\<lparr> scr_tiles := [plain_window 1 ''a'', plain_window 2 ''b''],
                                  scr_floats := [plain_window 3 ''c''] \<rparr>) (- 3)
     = Inr ((plain_screen 24 80)\<lparr> scr_tiles := [plain_window 1 ''a'', plain_window 2 ''b''],
                                   scr_floats := [plain_window 3 ''c''] \<rparr>,
            Couldnt_find_window (- 3))"
proof -
  note in_range = focus_resolves_signed_index
    [of "(plain_screen 24 80)\<lparr> scr_tiles := [plain_window 1 ''a'', plain_window 2 ''b''],
                               scr_floats := [plain_window 3 ''c''] \<rparr>" "- 1"]
  note out_of_range = focus_resolves_signed_index
    [of "(plain_screen 24 80)\<lparr> scr_tiles := [plain_window 1 ''a'', plain_window 2 ''b''],
                               scr_floats := [plain_window 3 ''c''] \<rparr>" "- 3"]
  have a: "focus ((plain_screen 24 80)\<lparr> scr_tiles := [plain_window 1 ''a'', plain_window 2 ''b''],
                                scr_floats := [plain_window 3 ''c''] \<rparr>) (- 1)
     = Inr ((plain_screen 24 80)\<lparr> scr_tiles := [plain_window 1 ''a'', plain_window 2 ''b''],
                                   scr_floats := [plain_window 3 ''c''],
                                   scr_focused := Some (plain_window 1 ''a'') \<rparr>,
            Focusing_window (- 1) 1)"
    by (simp add: focus_def py_index_def plain_screen_def plain_window_def Let_def)
  have b: "focus ((plain_screen 24 80)\<lparr> scr_tiles := [plain_window 1 ''a'', plain_window 2 ''b''],
                                  scr_floats := [plain_window 3 ''c''] \<rparr>) 0
     = Inr ((plain_screen 24 80)\<lparr> scr_tiles := [plain_window 1 ''a'', plain_window 2 ''b''],
                                   scr_floats := [plain_window 3 ''c''],
                                   scr_focused := Some (plain_window 3 ''c'') \<rparr>,
            Focusing_window 0 3)"
    by (simp add: focus_def py_index_def plain_screen_def plain_window_def Let_def)
  have c: "focus ((plain_screen 24 80)\<lparr> scr_tiles := [plain_window 1 ''a'', plain_window 2 ''b''],
                                  scr_floats := [plain_window 3 ''c''] \<rparr>) (- 3)
     = Inr ((plain_screen 24 80)\<lparr> scr_tiles := [plain_window 1 ''a'', plain_window 2 ''b''],
                                   scr_floats := [plain_window 3 ''c''] \<rparr>,
            Couldnt_find_window (- 3))"
    by (simp add: focus_def py_index_def plain_screen_def plain_window_def Let_def)
  from in_range out_of_range a b c show ?thesis by blast
qed

text \<open>
  Claim C9. A command and a key are offered to the screen's own handler first. The
  focused window is offered it exactly when that handler did not handle it and a window
  is focused. A key's result is the handler's when it handled it, otherwise the focused
  window's, and "not handled" when no window is focused. Neither dispatch raises.
\<close>

theorem dispatch_screen_then_focused:
  "hd (command handler self cmd) = Screen_handler
   \<and> (Focused_window n \<in> set (command handler self cmd)
        \<longleftrightarrow> \<not> handler cmd \<and> (\<exists>f. scr_focused self = Some f \<and> wid f = n))
   \<and> hd (fst (key khandler wkey self k)) = Screen_handler
   \<and> (Focused_window n \<in> set (fst (key khandler wkey self k))
        \<longleftrightarrow> khandler k = None \<and> (\<exists>f. scr_focused self = Some f \<and> wid f = n))
   \<and> (khandler k \<noteq> None \<longrightarrow> snd (key khandler wkey self k) = khandler k)
   \<and> (khandler k = None \<and> scr_focused self = None \<longrightarrow> snd (key khandler wkey self k) = None)
   \<and> (khandler k = None \<and> scr_focused self = Some f \<longrightarrow>
         snd (key khandler wkey self k) = wkey f k)"
  by (auto simp: command_def key_def Let_def split: option.splits)

theorem dispatch_screen_then_focused_witness:
  "command (\<lambda>c. c = ''resize'') ((plain_screen 24 80)\<lparr> scr_focused := Some (plain_window 7 ''w'') \<rparr>)
       ''page-down'' = [Screen_handler, Focused_window 7]
   \<and> command (\<lambda>c. c = ''resize'') ((plain_screen 24 80)\<lparr> scr_focused := Some (plain_window 7 ''w'') \<rparr>)
       ''resize'' = [Screen_handler]
   \<and> key (\<lambda>k. if k = (10::int) then Some ''handled'' else None) (\<lambda>w k. None)
        (plain_screen 24 80) 10 = ([Screen_handler], Some ''handled'')
   \<and> key (\<lambda>k. if k = (10::int) then Some ''handled'' else None) (\<lambda>w k. None :: string option)
        (plain_screen 24 80) 11 = ([Screen_handler], None)
   \<and> key (\<lambda>k. if k = (10::int) then Some ''handled'' else None) (\<lambda>w k. if k = 11 then Some ''handled'' else None)
        ((plain_screen 24 80)\<lparr> scr_focused := Some (plain_window 7 ''w'') \<rparr>) 11
      = ([Screen_handler, Focused_window 7], Some ''handled'')"
proof -
  note unhandled = dispatch_screen_then_focused
    [of "\<lambda>c. c = ''resize''" "(plain_screen 24 80)\<lparr> scr_focused := Some (plain_window 7 ''w'') \<rparr>"
        "''page-down''" 7 "\<lambda>k. if k = (10::int) then Some ''handled'' else None"
        "\<lambda>w k. if k = 11 then Some ''handled'' else None" 11 "plain_window 7 ''w''"]
  note handled = dispatch_screen_then_focused
    [of "\<lambda>c. c = ''resize''" "plain_screen 24 80"
        "''resize''" 7 "\<lambda>k. if k = (10::int) then Some ''handled'' else None"
        "\<lambda>w k. None" 10 "plain_window 7 ''w''"]
  note nobody = dispatch_screen_then_focused
    [of "\<lambda>c. c = ''resize''" "plain_screen 24 80"
        "''resize''" 7 "\<lambda>k. if k = (10::int) then Some ''handled'' else None"
        "\<lambda>w k. None" 11 "plain_window 7 ''w''"]
  have a: "command (\<lambda>c. c = ''resize'') ((plain_screen 24 80)\<lparr> scr_focused := Some (plain_window 7 ''w'') \<rparr>)
       ''page-down'' = [Screen_handler, Focused_window 7]"
    by (simp add: command_def plain_window_def)
  have b: "command (\<lambda>c. c = ''resize'') ((plain_screen 24 80)\<lparr> scr_focused := Some (plain_window 7 ''w'') \<rparr>)
       ''resize'' = [Screen_handler]"
    by (simp add: command_def)
  have c: "key (\<lambda>k. if k = (10::int) then Some ''handled'' else None) (\<lambda>w k. None)
        (plain_screen 24 80) 10 = ([Screen_handler], Some ''handled'')"
    by (simp add: key_def)
  have d: "key (\<lambda>k. if k = (10::int) then Some ''handled'' else None) (\<lambda>w k. None :: string option)
        (plain_screen 24 80) 11 = ([Screen_handler], None)"
    by (simp add: key_def plain_screen_def)
  have e: "key (\<lambda>k. if k = (10::int) then Some ''handled'' else None) (\<lambda>w k. if k = 11 then Some ''handled'' else None)
        ((plain_screen 24 80)\<lparr> scr_focused := Some (plain_window 7 ''w'') \<rparr>) 11
      = ([Screen_handler, Focused_window 7], Some ''handled'')"
    by (simp add: key_def plain_window_def)
  from unhandled handled nobody a b c d e show ?thesis by blast
qed

subsection \<open>The input thread and the input callback\<close>

lemma input_turn_done:
  assumes "sub_edit s" and "input_box s = Some b" and "r \<noteq> - 1"
    and "fst (box_addkey ops b r) = 0"
  shows "input_turn ops s r =
           Inr (s\<lparr> input_box := Some (snd (box_addkey ops b r)), sub_edit := False,
                    input_done := True, needs_redraw := True \<rparr>)"
  using assms by (cases "box_addkey ops b r") (simp add: input_turn_def Let_def)

lemma input_turn_more:
  assumes "sub_edit s" and "input_box s = Some b" and "r \<noteq> - 1"
    and "fst (box_addkey ops b r) \<noteq> 0"
  shows "input_turn ops s r = Inr (s\<lparr> input_box := Some (snd (box_addkey ops b r)) \<rparr>)"
  using assms by (cases "box_addkey ops b r") (simp add: input_turn_def Let_def)

lemma input_turn_normal:
  assumes "\<not> sub_edit s" and "r \<noteq> - 1"
  shows "input_turn ops s r = Inr (s\<lparr> user_queue := user_queue s @ [(''KEY'', r)] \<rparr>)"
  using assms by (simp add: input_turn_def)

lemma hi_scenario:
  "input_callback (spec_box_ops 10)
      \<lparr> sub_edit = False, input_done = False, needs_redraw = False, user_queue = [],
        input_box = Some \<lparr> ib_prompt = [], ib_result = [] \<rparr>, cursor = 0 \<rparr>
      ''p:'' [104, 105, 10]
    = Some (Inr (''hi'',
        \<lparr> sub_edit = False, input_done = True, needs_redraw = True, user_queue = [],
          input_box = Some \<lparr> ib_prompt = [], ib_result = [] \<rparr>, cursor = 0 \<rparr>))"
  by (simp add: input_callback_def input_callback_setup_def input_callback_return_def
      input_turn_def spec_box_ops_def char_of_def Let_def)

text \<open>
  Claim C8. While an edit capture is active, the key on which the input box answers
  "done" (\<open>0\<close>) ends it: the input thread clears \<open>sub_edit\<close>, sets the completion event
  and marks the display for redraw, and puts nothing on the queue. The waiting caller
  then returns the box's result (whatever it is, the empty string included) and resets
  the box, and the next key goes to the command queue. A key on which the box
  answers "more" leaves the capture active and the caller waiting. With the input box
  as the spec describes it, asking for input with the prompt \<open>p:\<close> and feeding
  \<open>h\<close>, \<open>i\<close> and the done key returns \<open>hi\<close>.
\<close>

theorem edit_capture_completes:
  "(sub_edit s \<and> input_box s = Some b \<and> r \<noteq> - 1 \<and> fst (box_addkey ops b r) = 0 \<longrightarrow>
      (\<exists>s'. input_turn ops s r = Inr s'
         \<and> input_done s' \<and> \<not> sub_edit s' \<and> needs_redraw s'
         \<and> user_queue s' = user_queue s
         \<and> (\<exists>s''. input_callback_return ops s'
                     = Some (Inr (box_result ops (snd (box_addkey ops b r)), s''))
              \<and> \<not> sub_edit s'' \<and> needs_redraw s'' \<and> cursor s'' = 0
              \<and> (\<forall>r2. r2 \<noteq> - 1 \<longrightarrow>
                    input_turn ops s'' r2
                      = Inr (s''\<lparr> user_queue := user_queue s @ [(''KEY'', r2)] \<rparr>)))))
   \<and> (sub_edit s \<and> \<not> input_done s \<and> input_box s = Some b \<and> r \<noteq> - 1
        \<and> fst (box_addkey ops b r) \<noteq> 0 \<longrightarrow>
      (\<exists>s'. input_turn ops s r = Inr s' \<and> sub_edit s' \<and> user_queue s' = user_queue s
         \<and> input_callback_return ops s' = None))
   \<and> input_callback (spec_box_ops 10)
        \<lparr> sub_edit = False, input_done = False, needs_redraw = False, user_queue = [],
          input_box = Some \<lparr> ib_prompt = [], ib_result = [] \<rparr>, cursor = 0 \<rparr>
        ''p:'' [104, 105, 10]
      = Some (Inr (''hi'',
          \<lparr> sub_edit = False, input_done = True, needs_redraw = True, user_queue = [],
            input_box = Some \<lparr> ib_prompt = [], ib_result = [] \<rparr>, cursor = 0 \<rparr>))"
proof -
  have finished: "sub_edit s \<and> input_box s = Some b \<and> r \<noteq> - 1 \<and> fst (box_addkey ops b r) = 0 \<longrightarrow>
      (\<exists>s'. input_turn ops s r = Inr s'
         \<and> input_done s' \<and> \<not> sub_edit s' \<and> needs_redraw s'
         \<and> user_queue s' = user_queue s
         \<and> (\<exists>s''. input_callback_return ops s'
                     = Some (Inr (box_result ops (snd (box_addkey ops b r)), s''))
              \<and> \<not> sub_edit s'' \<and> needs_redraw s'' \<and> cursor s'' = 0
              \<and> (\<forall>r2. r2 \<noteq> - 1 \<longrightarrow>
                    input_turn ops s'' r2
                      = Inr (s''\<lparr> user_queue := user_queue s @ [(''KEY'', r2)] \<rparr>))))"
  proof
    assume a: "sub_edit s \<and> input_box s = Some b \<and> r \<noteq> - 1 \<and> fst (box_addkey ops b r) = 0"
    define s' where "s' = s\<lparr> input_box := Some (snd (box_addkey ops b r)), sub_edit := False,
                    input_done := True, needs_redraw := True \<rparr>"
    define s'' where "s'' = s'\<lparr> input_box := Some (box_reset ops (snd (box_addkey ops b r))),
                    cursor := 0 \<rparr>"
    have t: "input_turn ops s r = Inr s'"
      using a input_turn_done [of s b r ops] by (simp add: s'_def)
    have ret: "input_callback_return ops s'
                 = Some (Inr (box_result ops (snd (box_addkey ops b r)), s''))"
      by (simp add: input_callback_return_def s'_def s''_def Let_def)
    have nxt: "\<forall>r2. r2 \<noteq> - 1 \<longrightarrow>
                    input_turn ops s'' r2
                      = Inr (s''\<lparr> user_queue := user_queue s @ [(''KEY'', r2)] \<rparr>)"
      by (simp add: input_turn_def s'_def s''_def)
    have "input_done s' \<and> \<not> sub_edit s' \<and> needs_redraw s' \<and> user_queue s' = user_queue s"
      by (simp add: s'_def)
    moreover have "\<not> sub_edit s'' \<and> needs_redraw s'' \<and> cursor s'' = 0"
      by (simp add: s'_def s''_def)
    ultimately show "\<exists>s'. input_turn ops s r = Inr s'
         \<and> input_done s' \<and> \<not> sub_edit s' \<and> needs_redraw s'
         \<and> user_queue s' = user_queue s
         \<and> (\<exists>s''. input_callback_return ops s'
                     = Some (Inr (box_result ops (snd (box_addkey ops b r)), s''))
              \<and> \<not> sub_edit s'' \<and> needs_redraw s'' \<and> cursor s'' = 0
              \<and> (\<forall>r2. r2 \<noteq> - 1 \<longrightarrow>
                    input_turn ops s'' r2
                      = Inr (s''\<lparr> user_queue := user_queue s @ [(''KEY'', r2)] \<rparr>)))"
      using t ret nxt by blast
  qed
  have more: "sub_edit s \<and> \<not> input_done s \<and> input_box s = Some b \<and> r \<noteq> - 1
        \<and> fst (box_addkey ops b r) \<noteq> 0 \<longrightarrow>
      (\<exists>s'. input_turn ops s r = Inr s' \<and> sub_edit s' \<and> user_queue s' = user_queue s
         \<and> input_callback_return ops s' = None)"
    using input_turn_more [of s b r ops] by (auto simp: input_callback_return_def)
  from finished more hi_scenario show ?thesis by blast
qed

theorem edit_capture_completes_witness:
  "sub_edit \<lparr> sub_edit = True, input_done = False, needs_redraw = False, user_queue = [(''KEY'', 7)],
        input_box = Some \<lparr> ib_prompt = ''p:'', ib_result = ''hi'' \<rparr>, cursor = 1 \<rparr>
   \<and> fst (box_addkey (spec_box_ops 10) \<lparr> ib_prompt = ''p:'', ib_result = ''hi'' \<rparr> 10) = 0
   \<and> input_turn (spec_box_ops 10)
       \<lparr> sub_edit = True, input_done = False, needs_redraw = False, user_queue = [(''KEY'', 7)],
         input_box = Some \<lparr> ib_prompt = ''p:'', ib_result = ''hi'' \<rparr>, cursor = 1 \<rparr> 10
     = Inr \<lparr> sub_edit = False, input_done = True, needs_redraw = True, user_queue = [(''KEY'', 7)],
         input_box = Some \<lparr> ib_prompt = ''p:'', ib_result = ''hi'' \<rparr>, cursor = 1 \<rparr>
   \<and> input_callback_return (spec_box_ops 10)
       \<lparr> sub_edit = False, input_done = True, needs_redraw = True, user_queue = [(''KEY'', 7)],
         input_box = Some \<lparr> ib_prompt = ''p:'', ib_result = ''hi'' \<rparr>, cursor = 1 \<rparr>
     = Some (Inr (''hi'',
         \<lparr> sub_edit = False, input_done = True, needs_redraw = True, user_queue = [(''KEY'', 7)],
           input_box = Some \<lparr> ib_prompt = [], ib_result = [] \<rparr>, cursor = 0 \<rparr>))
   \<and> fst (box_addkey (spec_box_ops 10) \<lparr> ib_prompt = ''p:'', ib_result = ''h'' \<rparr> 105) \<noteq> 0
   \<and> input_turn (spec_box_ops 10)
       \<lparr> sub_edit = True, input_done = False, needs_redraw = False, user_queue = [(''KEY'', 7)],
         input_box = Some \<lparr> ib_prompt = ''p:'', ib_result = ''h'' \<rparr>, cursor = 1 \<rparr> 105
     = Inr \<lparr> sub_edit = True, input_done = False, needs_redraw = False, user_queue = [(''KEY'', 7)],
         input_box = Some \<lparr> ib_prompt = ''p:'', ib_result = ''hi'' \<rparr>, cursor = 1 \<rparr>"
proof -
  note done_key = edit_capture_completes
    [of "\<lparr> sub_edit = True, input_done = False, needs_redraw = False, user_queue = [(''KEY'', 7)],
         input_box = Some \<lparr> ib_prompt = ''p:'', ib_result = ''hi'' \<rparr>, cursor = 1 \<rparr>"
        "\<lparr> ib_prompt = ''p:'', ib_result = ''hi'' \<rparr>" 10 "spec_box_ops 10"]
  note more_key = edit_capture_completes
    [of "\<lparr> sub_edit = True, input_done = False, needs_redraw = False, user_queue = [(''KEY'', 7)],
         input_box = Some \<lparr> ib_prompt = ''p:'', ib_result = ''h'' \<rparr>, cursor = 1 \<rparr>"
        "\<lparr> ib_prompt = ''p:'', ib_result = ''h'' \<rparr>" 105 "spec_box_ops 10"]
  have a: "sub_edit \<lparr> sub_edit = True, input_done = False, needs_redraw = False, user_queue = [(''KEY'', 7)],
        input_box = Some \<lparr> ib_prompt = ''p:'', ib_result = ''hi'' \<rparr>, cursor = 1 \<rparr>"
    by simp
  have b: "fst (box_addkey (spec_box_ops 10) \<lparr> ib_prompt = ''p:'', ib_result = ''hi'' \<rparr> 10) = 0"
    by (simp add: spec_box_ops_def)
  have c: "input_turn (spec_box_ops 10)
       \<lparr> sub_edit = True, input_done = False, needs_redraw = False, user_queue = [(''KEY'', 7)],
         input_box = Some \<lparr> ib_prompt = ''p:'', ib_result = ''hi'' \<rparr>, cursor = 1 \<rparr> 10
     = Inr \<lparr> sub_edit = False, input_done = True, needs_redraw = True, user_queue = [(''KEY'', 7)],
         input_box = Some \<lparr> ib_prompt = ''p:'', ib_result = ''hi'' \<rparr>, cursor = 1 \<rparr>"
    by (simp add: input_turn_def spec_box_ops_def Let_def)
  have d: "input_callback_return (spec_box_ops 10)
       \<lparr> sub_edit = False, input_done = True, needs_redraw = True, user_queue = [(''KEY'', 7)],
         input_box = Some \<lparr> ib_prompt = ''p:'', ib_result = ''hi'' \<rparr>, cursor = 1 \<rparr>
     = Some (Inr (''hi'',
         \<lparr> sub_edit = False, input_done = True, needs_redraw = True, user_queue = [(''KEY'', 7)],
           input_box = Some \<lparr> ib_prompt = [], ib_result = [] \<rparr>, cursor = 0 \<rparr>))"
    by (simp add: input_callback_return_def spec_box_ops_def Let_def)
  have e: "fst (box_addkey (spec_box_ops 10) \<lparr> ib_prompt = ''p:'', ib_result = ''h'' \<rparr> 105) \<noteq> 0"
    by (simp add: spec_box_ops_def)
  have f: "input_turn (spec_box_ops 10)
       \<lparr> sub_edit = True, input_done = False, needs_redraw = False, user_queue = [(''KEY'', 7)],
         input_box = Some \<lparr> ib_prompt = ''p:'', ib_result = ''h'' \<rparr>, cursor = 1 \<rparr> 105
     = Inr \<lparr> sub_edit = True, input_done = False, needs_redraw = False, user_queue = [(''KEY'', 7)],
         input_box = Some \<lparr> ib_prompt = ''p:'', ib_result = ''hi'' \<rparr>, cursor = 1 \<rparr>"
    by (simp add: input_turn_def spec_box_ops_def char_of_def Let_def)
  from done_key more_key a b c d e f show ?thesis by blast
qed

subsection \<open>The loop over the sublayouts\<close>

lemmas eval_layout =
  subw.simps subw_sizes_def subw_layout_size_def subw_init_def newpad_def border_flags_def
  is_float_def subw_size_height_def subw_size_width_def pad_extent_def
  plain_screen_def plain_window_def no_options_def Let_def

text \<open>
  Claim C4. A sublayout's candidate share is the remaining space divided by the number
  of sublayouts not yet solved, and it is solved with the other orientation; but what
  a horizontal group then charges for it is one less than the widest pad inside it.
  \<^verbatim>\<open>_subw_layout_size\<close> subtracts 1 from \<^verbatim>\<open>pad.getmaxyx()[idx]\<close> for both
  dimensions, while \<^verbatim>\<open>_subw_init\<close> makes the pad one larger than the window in height
  only. Here the default layout of a tag list and a right-aligned window on an 80 by
  24 screen: the tag list is given 40 columns and reaches all 40, the group charges
  39, and the second window is placed on the tag list's last column.
\<close>

theorem horizontal_charge_is_one_short:
  "fill_layout ((plain_screen 24 80)\<lparr> scr_opts := no_options\<lparr> opt_align :=
            (\<lambda>n. if n = ''taglist'' then ''neutral'' else ''right'') \<rparr> \<rparr>) ''default''
          [plain_window 1 ''taglist'', plain_window 2 ''textbox'']
     = Inr [Sublayout [Sublayout [Sublayout [Window (plain_window 1 ''taglist'')]],
                       Window (plain_window 2 ''textbox'')]]
   \<and> (\<exists>st. solve_cmplx (plain_screen 24 80) Horizontal 0 0 24 80
          [(0, [Sublayout [Window (plain_window 1 ''taglist'')]])] [0, 40] 40 1 Map.empty
        = Inr ([39, 40], 79, 0, st)
      \<and> map_option (\<lambda>p. (p_left p, p_right p, snd (p_pad p))) (st 1) = Some (0, 39, 40))
   \<and> (\<exists>st. subw (plain_screen 24 80)
          [Sublayout [Sublayout [Sublayout [Window (plain_window 1 ''taglist'')]],
                      Window (plain_window 2 ''textbox'')]] 0 0 24 80 Vertical Map.empty
        = Inr st
      \<and> map (map_option (\<lambda>p. (p_left p, p_right p)) \<circ> st) [1, 2]
          = [Some (0, 39), Some (39, 78)])"
proof -
  have a: "fill_layout ((plain_screen 24 80)\<lparr> scr_opts := no_options\<lparr> opt_align :=
            (\<lambda>n. if n = ''taglist'' then ''neutral'' else ''right'') \<rparr> \<rparr>) ''default''
          [plain_window 1 ''taglist'', plain_window 2 ''textbox'']
     = Inr [Sublayout [Sublayout [Sublayout [Window (plain_window 1 ''taglist'')]],
                       Window (plain_window 2 ''textbox'')]]"
    by (simp add: fill_layout_def aligns_append_def plain_window_def plain_screen_def
        no_options_def Let_def)
  have b: "\<exists>st. solve_cmplx (plain_screen 24 80) Horizontal 0 0 24 80
          [(0, [Sublayout [Window (plain_window 1 ''taglist'')]])] [0, 40] 40 1 Map.empty
        = Inr ([39, 40], 79, 0, st)
      \<and> map_option (\<lambda>p. (p_left p, p_right p, snd (p_pad p))) (st 1) = Some (0, 39, 40)"
    by (simp add: eval_layout)
  have c: "\<exists>st. subw (plain_screen 24 80)
          [Sublayout [Sublayout [Sublayout [Window (plain_window 1 ''taglist'')]],
                      Window (plain_window 2 ''textbox'')]] 0 0 24 80 Vertical Map.empty
        = Inr st
      \<and> map (map_option (\<lambda>p. (p_left p, p_right p)) \<circ> st) [1, 2]
          = [Some (0, 39), Some (39, 78)]"
    by (simp add: eval_layout)
  from a b c show ?thesis by blast
qed

subsection \<open>The tiled layout stays within its bounds\<close>



subsubsection \<open>Indices of the two lists\<close>




subsubsection \<open>The first loop: what it keeps and how far it can go\<close>



subsubsection \<open>The last loop: what a successful placement tells\<close>






subsubsection \<open>Measuring a solved sublayout\<close>






subsubsection \<open>One turn of the loop over the sublayouts\<close>



subsubsection \<open>Sizes add up to the space used\<close>




subsubsection \<open>Every placed window fits the space its layout was given\<close>










subsubsection \<open>Windows that ask for nothing negative\<close>




subsubsection \<open>What the charge of a sublayout measures\<close>










subsubsection \<open>A layout whose windows are all different\<close>



subsubsection \<open>The sizes of a group's children\<close>











end
